theory Spec2Isabelle
  imports Complex_Main
begin

section \<open>The CNN MNIST notebook (Images/cnn\_mnist.ipynb)\<close>

text \<open>
  The notebook defines two Python functions, \<open>cnn_model_fn\<close> (the model function handed to
  the estimator) and \<open>main\<close> (the driver).  Both are glue code over the TensorFlow 1.x
  library.  The embedding keeps the notebook's own logic as it is written: the order of the
  statements, the two \<open>if\<close> statements, the three \<open>return\<close> statements, the local
  variables and every literal argument.  A call into the library is modelled by the graph
  node it creates; line numbers are those of the notebook file.
\<close>

subsection \<open>Python errors\<close>

datatype error =
    KeyError string
  | ValueError string
  | UnboundLocalError string

subsection \<open>Execution modes\<close>

text \<open>
  \<open>tf.estimator.ModeKeys\<close>: the mode argument is a Python string, and the source compares it
  with \<open>==\<close>.  Any other string is a possible argument too.
\<close>

type_synonym mode = string

definition TRAIN :: mode where
  "TRAIN = ''train''"

definition EVAL :: mode where
  "EVAL = ''eval''"

definition PREDICT :: mode where
  "PREDICT = ''infer''"

subsection \<open>Graph nodes\<close>

datatype activation = Relu

datatype padding = Same | Valid

datatype dtype = Int32

text \<open>
  A tensor is the symbolic node that a library call adds to the computation graph, holding
  the call's arguments.  \<open>Fed\<close> is a tensor supplied by the input function, with the shape
  it has for the batch at hand.
\<close>

datatype tensor =
    Fed string "nat list"
  | Reshape tensor "int list"
  | Conv2d tensor nat "nat list" padding "activation option"
  | MaxPooling2d tensor "nat list" nat
  | Dense tensor nat "activation option"
  | Dropout tensor real bool
  | ArgMax tensor nat
  | Softmax tensor string
  | Cast tensor dtype
  | OneHot tensor nat
  | SoftmaxCrossEntropy tensor tensor
  | Accuracy tensor tensor
  | GlobalStep

datatype optimizer = GradientDescentOptimizer real

datatype operation = Minimize optimizer tensor "tensor option"

datatype node = TensorNode tensor | OpNode operation

datatype estimator_spec =
  EstimatorSpec
    (spec_mode: mode)
    (spec_predictions: "(string \<times> tensor) list option")
    (spec_loss: "tensor option")
    (spec_train_op: "operation option")
    (spec_eval_metric_ops: "(string \<times> tensor) list option")

subsection \<open>Shapes of the library's layers\<close>

text \<open>
  Modelled from the spec: \<open>tf.reshape\<close> is a function of the TensorFlow library, which is
  not under src/.  The spec (sections 3 and 8) and the notebook's own docstring at line 60
  say that the dimension given as \<open>-1\<close> is computed from the number of input values; the
  other dimensions are taken as given.  The library rejects a target shape with more than
  one \<open>-1\<close>, with another negative entry, or whose known dimensions do not divide the
  number of values.
\<close>

definition reshape_shape :: "nat list \<Rightarrow> int list \<Rightarrow> nat list option" where
  "reshape_shape s target =
     (let n = prod_list s;
          unknown = length (filter (\<lambda>d. d = - 1) target);
          known = prod_list (map nat (filter (\<lambda>d. d \<noteq> - 1) target))
      in if list_ex (\<lambda>d. d < - 1) target then None
         else if unknown = 0 then (if known = n then Some (map nat target) else None)
         else if unknown = 1 then
           (if known = 0 then None
            else if n mod known = 0
              then Some (map (\<lambda>d. if d = - 1 then n div known else nat d) target)
              else None)
         else None)"

text \<open>
  Modelled from the spec: \<open>tf.layers.conv2d\<close> is library code, not under src/.  With
  padding "same" and the default stride 1 the output keeps the width and height of the
  input and has one channel per filter (the notebook's docstring at line 67).  With padding
  "valid" the kernel must fit.
\<close>

fun conv2d_shape :: "nat list \<Rightarrow> nat \<Rightarrow> nat list \<Rightarrow> padding \<Rightarrow> nat list option" where
  "conv2d_shape [b, h, w, c] filters [kh, kw] Same = Some [b, h, w, filters]"
| "conv2d_shape [b, h, w, c] filters [kh, kw] Valid =
     (if 0 < kh \<and> 0 < kw \<and> kh \<le> h \<and> kw \<le> w
      then Some [b, h - kh + 1, w - kw + 1, filters] else None)"
| "conv2d_shape _ _ _ _ = None"

text \<open>
  Modelled from the spec: \<open>tf.layers.max_pooling2d\<close> is library code, not under src/.  Its
  default padding is "valid": a window of the pool size moves by the stride and must fit.
\<close>

fun max_pooling2d_shape :: "nat list \<Rightarrow> nat list \<Rightarrow> nat \<Rightarrow> nat list option" where
  "max_pooling2d_shape [b, h, w, c] [ph, pw] strides =
     (if 0 < strides \<and> 0 < ph \<and> 0 < pw \<and> ph \<le> h \<and> pw \<le> w
      then Some [b, (h - ph) div strides + 1, (w - pw) div strides + 1, c] else None)"
| "max_pooling2d_shape _ _ _ = None"

text \<open>
  Modelled from the spec: \<open>tf.layers.dense\<close> is library code, not under src/.  It needs an
  input of rank 2 or more and replaces the last dimension by the number of units (the
  comment at line 88 of the notebook).
\<close>

definition dense_shape :: "nat list \<Rightarrow> nat \<Rightarrow> nat list option" where
  "dense_shape s units = (if length s < 2 then None else Some (butlast s @ [units]))"

text \<open>
  Modelled from the spec: \<open>tf.argmax\<close> is library code, not under src/.  It removes the
  axis it reduces over.
\<close>

definition argmax_shape :: "nat list \<Rightarrow> nat \<Rightarrow> nat list option" where
  "argmax_shape s axis =
     (if axis < length s then Some (take axis s @ drop (Suc axis) s) else None)"

text \<open>
  Modelled from the spec: the shape of every node, following the library's shape rules.
  Dropout, softmax and cast keep the shape; one-hot encoding appends the depth; the
  cross-entropy loss and the accuracy metric are scalars and need arguments of one shape.
  \<open>None\<close> is a node that the library refuses to build.
\<close>

fun shape_of :: "tensor \<Rightarrow> nat list option" where
  "shape_of (Fed name s) = Some s"
| "shape_of (Reshape t target) =
     (case shape_of t of None \<Rightarrow> None | Some s \<Rightarrow> reshape_shape s target)"
| "shape_of (Conv2d t filters kernel_size pad act) =
     (case shape_of t of None \<Rightarrow> None | Some s \<Rightarrow> conv2d_shape s filters kernel_size pad)"
| "shape_of (MaxPooling2d t pool_size strides) =
     (case shape_of t of None \<Rightarrow> None | Some s \<Rightarrow> max_pooling2d_shape s pool_size strides)"
| "shape_of (Dense t units act) =
     (case shape_of t of None \<Rightarrow> None | Some s \<Rightarrow> dense_shape s units)"
| "shape_of (Dropout t rate training) = shape_of t"
| "shape_of (ArgMax t axis) =
     (case shape_of t of None \<Rightarrow> None | Some s \<Rightarrow> argmax_shape s axis)"
| "shape_of (Softmax t name) =
     (case shape_of t of None \<Rightarrow> None | Some s \<Rightarrow> if s = [] then None else Some s)"
| "shape_of (Cast t ty) = shape_of t"
| "shape_of (OneHot t depth) =
     (case shape_of t of None \<Rightarrow> None | Some s \<Rightarrow> Some (s @ [depth]))"
| "shape_of (SoftmaxCrossEntropy onehot lg) =
     (case shape_of onehot of None \<Rightarrow> None
      | Some s \<Rightarrow>
          (case shape_of lg of None \<Rightarrow> None
           | Some s' \<Rightarrow> if s = s' then Some [] else None))"
| "shape_of (Accuracy lbls preds) =
     (case shape_of lbls of None \<Rightarrow> None
      | Some s \<Rightarrow>
          (case shape_of preds of None \<Rightarrow> None
           | Some s' \<Rightarrow> if s = s' then Some [] else None))"
| "shape_of GlobalStep = Some []"

subsection \<open>The interpreter state of one call\<close>

text \<open>
  The state of a call of \<open>cnn_model_fn\<close>: the library's default graph (the nodes created so
  far, in order), the lines of the statements executed so far, and the function's local
  variables.  A Python local is unbound until its first assignment: \<open>None\<close> here.
\<close>

record state =
  graph :: "node list"
  visited :: "nat list"
  input_layer :: "tensor option"
  conv1 :: "tensor option"
  pool1 :: "tensor option"
  conv2 :: "tensor option"
  pool2 :: "tensor option"
  pool2_flat :: "tensor option"
  dense :: "tensor option"
  dropout :: "tensor option"
  logits :: "tensor option"
  predictions :: "(string \<times> tensor) list option"
  onehot_labels :: "tensor option"
  loss :: "tensor option"
  optimizer :: "optimizer option"
  train_op :: "operation option"
  eval_metric_ops :: "(string \<times> tensor) list option"

definition initial_state :: "node list \<Rightarrow> state" where
  "initial_state g =
     \<lparr>graph = g, visited = [], input_layer = None, conv1 = None, pool1 = None,
      conv2 = None, pool2 = None, pool2_flat = None, dense = None, dropout = None,
      logits = None, predictions = None, onehot_labels = None, loss = None,
      optimizer = None, train_op = None, eval_metric_ops = None\<rparr>"

text \<open>An expression is evaluated in a state; it may add nodes to the graph, and may raise.\<close>

type_synonym 'a expr = "state \<Rightarrow> state \<times> (error + 'a)"

definition pure :: "'a \<Rightarrow> 'a expr" where
  "pure v \<sigma> = (\<sigma>, Inr v)"

definition bind_expr :: "'a expr \<Rightarrow> ('a \<Rightarrow> 'b expr) \<Rightarrow> 'b expr" where
  "bind_expr e f \<sigma> =
     (case e \<sigma> of (\<sigma>', Inl err) \<Rightarrow> (\<sigma>', Inl err) | (\<sigma>', Inr v) \<Rightarrow> f v \<sigma>')"

text \<open>Reading a local variable: Python raises \<open>UnboundLocalError\<close> when it is not assigned yet.\<close>

definition var :: "string \<Rightarrow> (state \<Rightarrow> 'a option) \<Rightarrow> 'a expr" where
  "var name field \<sigma> =
     (case field \<sigma> of None \<Rightarrow> (\<sigma>, Inl (UnboundLocalError name)) | Some v \<Rightarrow> (\<sigma>, Inr v))"

text \<open>Subscripting a dict: \<open>d[k]\<close> raises \<open>KeyError\<close> when the key is missing.\<close>

definition subscript :: "(string \<rightharpoonup> 'a) \<Rightarrow> string \<Rightarrow> 'a expr" where
  "subscript d k \<sigma> = (case d k of None \<Rightarrow> (\<sigma>, Inl (KeyError k)) | Some v \<Rightarrow> (\<sigma>, Inr v))"

subsection \<open>The library calls of the notebook\<close>

text \<open>
  A library call builds its node when the library's shape rules accept it, and raises
  \<open>ValueError\<close> otherwise.
\<close>

definition add_tensor :: "tensor \<Rightarrow> tensor expr" where
  "add_tensor t \<sigma> =
     (case shape_of t of
        None \<Rightarrow> (\<sigma>, Inl (ValueError ''shape''))
      | Some s \<Rightarrow> (\<sigma>\<lparr>graph := graph \<sigma> @ [TensorNode t]\<rparr>, Inr t))"

definition tf_reshape :: "tensor \<Rightarrow> int list \<Rightarrow> tensor expr" where
  "tf_reshape t target = add_tensor (Reshape t target)"

definition tf_layers_conv2d ::
  "tensor \<Rightarrow> nat \<Rightarrow> nat list \<Rightarrow> padding \<Rightarrow> activation option \<Rightarrow> tensor expr" where
  "tf_layers_conv2d inputs filters kernel_size pad act =
     add_tensor (Conv2d inputs filters kernel_size pad act)"

definition tf_layers_max_pooling2d :: "tensor \<Rightarrow> nat list \<Rightarrow> nat \<Rightarrow> tensor expr" where
  "tf_layers_max_pooling2d inputs pool_size strides =
     add_tensor (MaxPooling2d inputs pool_size strides)"

definition tf_layers_dense :: "tensor \<Rightarrow> nat \<Rightarrow> activation option \<Rightarrow> tensor expr" where
  "tf_layers_dense inputs units act = add_tensor (Dense inputs units act)"

definition tf_layers_dropout :: "tensor \<Rightarrow> real \<Rightarrow> bool \<Rightarrow> tensor expr" where
  "tf_layers_dropout inputs rate training = add_tensor (Dropout inputs rate training)"

definition tf_argmax :: "tensor \<Rightarrow> nat \<Rightarrow> tensor expr" where
  "tf_argmax inp axis = add_tensor (ArgMax inp axis)"

definition tf_nn_softmax :: "tensor \<Rightarrow> string \<Rightarrow> tensor expr" where
  "tf_nn_softmax lg name = add_tensor (Softmax lg name)"

text \<open>The labels argument may be Python's \<open>None\<close> (the estimator passes none when predicting).\<close>

definition tf_cast :: "tensor option \<Rightarrow> dtype \<Rightarrow> tensor expr" where
  "tf_cast x ty =
     (case x of
        None \<Rightarrow> (\<lambda>\<sigma>. (\<sigma>, Inl (ValueError ''None values not supported.'')))
      | Some t \<Rightarrow> add_tensor (Cast t ty))"

definition tf_one_hot :: "tensor \<Rightarrow> nat \<Rightarrow> tensor expr" where
  "tf_one_hot indices depth = add_tensor (OneHot indices depth)"

definition tf_losses_softmax_cross_entropy :: "tensor \<Rightarrow> tensor \<Rightarrow> tensor expr" where
  "tf_losses_softmax_cross_entropy onehot lg = add_tensor (SoftmaxCrossEntropy onehot lg)"

definition tf_train_GradientDescentOptimizer :: "real \<Rightarrow> optimizer expr" where
  "tf_train_GradientDescentOptimizer learning_rate = pure (GradientDescentOptimizer learning_rate)"

text \<open>The global step of the graph, when the graph has one.\<close>

definition tf_train_get_global_step :: "tensor option expr" where
  "tf_train_get_global_step \<sigma> =
     (\<sigma>, Inr (if TensorNode GlobalStep \<in> set (graph \<sigma>) then Some GlobalStep else None))"

definition minimize :: "optimizer \<Rightarrow> tensor \<Rightarrow> tensor option \<Rightarrow> operation expr" where
  "minimize opt l global_step \<sigma> =
     (\<sigma>\<lparr>graph := graph \<sigma> @ [OpNode (Minimize opt l global_step)]\<rparr>,
      Inr (Minimize opt l global_step))"

definition tf_metrics_accuracy :: "tensor option \<Rightarrow> tensor \<Rightarrow> tensor expr" where
  "tf_metrics_accuracy lbls preds =
     (case lbls of
        None \<Rightarrow> (\<lambda>\<sigma>. (\<sigma>, Inl (ValueError ''None values not supported.'')))
      | Some t \<Rightarrow> add_tensor (Accuracy t preds))"

subsection \<open>Statements\<close>

text \<open>
  A statement either falls through to the next one, returns from the function, or raises.
\<close>

datatype outcome = Next | Return estimator_spec | Raise error

type_synonym stmt = "state \<Rightarrow> state \<times> outcome"

fun exec :: "stmt list \<Rightarrow> state \<Rightarrow> state \<times> outcome" where
  "exec [] \<sigma> = (\<sigma>, Next)"
| "exec (s # ss) \<sigma> =
     (case s \<sigma> of (\<sigma>', Next) \<Rightarrow> exec ss \<sigma>' | (\<sigma>', Return v) \<Rightarrow> (\<sigma>', Return v)
      | (\<sigma>', Raise e) \<Rightarrow> (\<sigma>', Raise e))"

definition at_line :: "nat \<Rightarrow> stmt \<Rightarrow> stmt" where
  "at_line line s \<sigma> = s (\<sigma>\<lparr>visited := visited \<sigma> @ [line]\<rparr>)"

definition assign :: "('a \<Rightarrow> state \<Rightarrow> state) \<Rightarrow> 'a expr \<Rightarrow> stmt" where
  "assign store e \<sigma> =
     (case e \<sigma> of (\<sigma>', Inl err) \<Rightarrow> (\<sigma>', Raise err) | (\<sigma>', Inr v) \<Rightarrow> (store v \<sigma>', Next))"

definition return_stmt :: "estimator_spec expr \<Rightarrow> stmt" where
  "return_stmt e \<sigma> =
     (case e \<sigma> of (\<sigma>', Inl err) \<Rightarrow> (\<sigma>', Raise err) | (\<sigma>', Inr v) \<Rightarrow> (\<sigma>', Return v))"

definition if_stmt :: "bool \<Rightarrow> stmt list \<Rightarrow> stmt" where
  "if_stmt c block \<sigma> = (if c then exec block \<sigma> else (\<sigma>, Next))"

subsection \<open>cnn\_model\_fn\<close>

text \<open>Lines 61 to 96: the layers, the logits and the predictions dict.\<close>

definition layers :: "(string \<rightharpoonup> tensor) \<Rightarrow> mode \<Rightarrow> stmt list" where
  "layers features mode =
     [at_line 61 (assign (\<lambda>v \<sigma>. \<sigma>\<lparr>input_layer := Some v\<rparr>)
        (bind_expr (subscript features ''x'') (\<lambda>x. tf_reshape x [- 1, 28, 28, 1]))),
      at_line 65 (assign (\<lambda>v \<sigma>. \<sigma>\<lparr>conv1 := Some v\<rparr>)
        (bind_expr (var ''input_layer'' input_layer)
           (\<lambda>i. tf_layers_conv2d i 32 [5, 5] Same (Some Relu)))),
      at_line 70 (assign (\<lambda>v \<sigma>. \<sigma>\<lparr>pool1 := Some v\<rparr>)
        (bind_expr (var ''conv1'' conv1) (\<lambda>c. tf_layers_max_pooling2d c [2, 2] 2))),
      at_line 74 (assign (\<lambda>v \<sigma>. \<sigma>\<lparr>conv2 := Some v\<rparr>)
        (bind_expr (var ''pool1'' pool1)
           (\<lambda>p. tf_layers_conv2d p 64 [5, 5] Same (Some Relu)))),
      at_line 76 (assign (\<lambda>v \<sigma>. \<sigma>\<lparr>pool2 := Some v\<rparr>)
        (bind_expr (var ''conv2'' conv2) (\<lambda>c. tf_layers_max_pooling2d c [2, 2] 2))),
      at_line 81 (assign (\<lambda>v \<sigma>. \<sigma>\<lparr>pool2_flat := Some v\<rparr>)
        (bind_expr (var ''pool2'' pool2) (\<lambda>p. tf_reshape p [- 1, 7 * 7 * 64]))),
      at_line 82 (assign (\<lambda>v \<sigma>. \<sigma>\<lparr>dense := Some v\<rparr>)
        (bind_expr (var ''pool2_flat'' pool2_flat)
           (\<lambda>p. tf_layers_dense p 1024 (Some Relu)))),
      at_line 83 (assign (\<lambda>v \<sigma>. \<sigma>\<lparr>dropout := Some v\<rparr>)
        (bind_expr (var ''dense'' dense)
           (\<lambda>d. tf_layers_dropout d 0.4 (mode = TRAIN)))),
      at_line 87 (assign (\<lambda>v \<sigma>. \<sigma>\<lparr>logits := Some v\<rparr>)
        (bind_expr (var ''dropout'' dropout) (\<lambda>d. tf_layers_dense d 10 None))),
      at_line 91 (assign (\<lambda>v \<sigma>. \<sigma>\<lparr>predictions := Some v\<rparr>)
        (bind_expr (var ''logits'' logits) (\<lambda>l.
         bind_expr (tf_argmax l 1) (\<lambda>classes.
         bind_expr (var ''logits'' logits) (\<lambda>l'.
         bind_expr (tf_nn_softmax l' ''softmax_tensor'') (\<lambda>probabilities.
         pure [(''classes'', classes), (''probabilities'', probabilities)]))))))]"

text \<open>
  Lines 98 to 119: the \<open>if\<close> on predict mode with its \<open>return\<close>, the loss, the \<open>if\<close> on
  train mode, the \<open>return\<close> at line 113 (which is at the function's own indentation, after
  the \<open>if\<close>), and the two statements that follow it in the source.
\<close>

definition heads :: "tensor option \<Rightarrow> mode \<Rightarrow> stmt list" where
  "heads labels mode =
     [at_line 98 (if_stmt (mode = PREDICT)
        [at_line 99 (return_stmt
           (bind_expr (var ''predictions'' predictions) (\<lambda>p.
            pure (EstimatorSpec mode (Some p) None None None))))]),
      at_line 103 (assign (\<lambda>v \<sigma>. \<sigma>\<lparr>onehot_labels := Some v\<rparr>)
        (bind_expr (tf_cast labels Int32) (\<lambda>c. tf_one_hot c 10))),
      at_line 105 (assign (\<lambda>v \<sigma>. \<sigma>\<lparr>loss := Some v\<rparr>)
        (bind_expr (var ''onehot_labels'' onehot_labels) (\<lambda>oh.
         bind_expr (var ''logits'' logits) (\<lambda>l.
         tf_losses_softmax_cross_entropy oh l)))),
      at_line 110 (if_stmt (mode = TRAIN)
        [at_line 111 (assign (\<lambda>v \<sigma>. \<sigma>\<lparr>optimizer := Some v\<rparr>)
           (tf_train_GradientDescentOptimizer 0.001)),
         at_line 112 (assign (\<lambda>v \<sigma>. \<sigma>\<lparr>train_op := Some v\<rparr>)
           (bind_expr (var ''optimizer'' optimizer) (\<lambda>opt.
            bind_expr (var ''loss'' loss) (\<lambda>l.
            bind_expr tf_train_get_global_step (\<lambda>gs.
            minimize opt l gs)))))]),
      at_line 113 (return_stmt
        (bind_expr (var ''loss'' loss) (\<lambda>l.
         bind_expr (var ''train_op'' train_op) (\<lambda>t.
         pure (EstimatorSpec mode None (Some l) (Some t) None))))),
      at_line 116 (assign (\<lambda>v \<sigma>. \<sigma>\<lparr>eval_metric_ops := Some v\<rparr>)
        (bind_expr (var ''predictions'' predictions) (\<lambda>p.
         bind_expr (subscript (map_of p) ''classes'') (\<lambda>classes.
         bind_expr (tf_metrics_accuracy labels classes) (\<lambda>acc.
         pure [(''accuracy'', acc)]))))),
      at_line 118 (return_stmt
        (bind_expr (var ''loss'' loss) (\<lambda>l.
         bind_expr (var ''eval_metric_ops'' eval_metric_ops) (\<lambda>m.
         pure (EstimatorSpec mode None (Some l) None (Some m))))))]"

text \<open>
  The function: its body runs from a state with no local bound, in the graph \<open>g\<close> that the
  caller has made the default.  The result is the final state and how the call ended.
\<close>

definition cnn_model_fn ::
  "(string \<rightharpoonup> tensor) \<Rightarrow> tensor option \<Rightarrow> mode \<Rightarrow> node list \<Rightarrow> state \<times> outcome" where
  "cnn_model_fn features labels mode g =
     exec (layers features mode @ heads labels mode) (initial_state g)"

subsection \<open>The driver\<close>

text \<open>A numpy array is modelled by its shape.\<close>

type_synonym ndarray = "nat list"

record dataset =
  mnist_train_images :: ndarray
  mnist_train_labels :: ndarray
  mnist_test_images :: ndarray
  mnist_test_labels :: ndarray

record hook =
  tensors :: "(string \<times> string) list"
  every_n_iter :: nat

record input_fn =
  fn_x :: "(string \<times> ndarray) list"
  fn_y :: "ndarray option"
  fn_batch_size :: nat
  fn_num_epochs :: "nat option"
  fn_shuffle :: bool

record estimator =
  model_fn :: "(string \<rightharpoonup> tensor) \<Rightarrow> tensor option \<Rightarrow> mode \<Rightarrow> node list \<Rightarrow> state \<times> outcome"
  model_dir :: string

text \<open>
  What the driver does to the outside world, in order: the dataset loaded, a training run
  completed, an evaluation pass completed, a line printed.
\<close>

datatype event =
    Loaded string
  | Trained input_fn nat "hook list"
  | Evaluated input_fn
  | Printed "string list"

text \<open>
  Modelled from the spec: \<open>tf.estimator.inputs.numpy_input_fn\<close> is library code, not under
  src/.  It keeps its arguments; a batch size that the caller does not give is the
  library's default, 128.
\<close>

definition tf_estimator_inputs_numpy_input_fn ::
  "(string \<times> ndarray) list \<Rightarrow> ndarray option \<Rightarrow> nat option \<Rightarrow> nat option \<Rightarrow> bool \<Rightarrow> input_fn" where
  "tf_estimator_inputs_numpy_input_fn xs ys batch_size num_epochs shuffle =
     \<lparr>fn_x = xs, fn_y = ys,
      fn_batch_size = (case batch_size of None \<Rightarrow> 128 | Some b \<Rightarrow> b),
      fn_num_epochs = num_epochs, fn_shuffle = shuffle\<rparr>"

text \<open>
  Modelled from the spec: a batch drawn from an input function.  The features dict and the
  labels hold one tensor per array, with the batch size as the leading dimension.
\<close>

definition batch_of :: "input_fn \<Rightarrow> (string \<rightharpoonup> tensor) \<times> tensor option" where
  "batch_of fn =
     (map_of (map (\<lambda>(k, a). (k, Fed k (fn_batch_size fn # tl a))) (fn_x fn)),
      map_option (\<lambda>a. Fed ''labels'' (fn_batch_size fn # tl a)) (fn_y fn))"

definition has_named :: "string \<Rightarrow> node list \<Rightarrow> bool" where
  "has_named name g =
     list_ex (\<lambda>n. case n of TensorNode (Softmax t nm) \<Rightarrow> nm = name | _ \<Rightarrow> False) g"

text \<open>
  Modelled from the spec: \<open>Estimator.train\<close> is library code, not under src/ (the spec
  treats the estimator as an opaque collaborator); the rule here is the library's
  documented contract.  It calls the model function in train mode on a batch, in a fresh
  graph that has a global step.  An error raised by the model
  function propagates to the caller; the spec returned must carry a loss and a training
  operation, and the tensors named by the hooks must be in the graph.  Then the steps run.
\<close>

definition train ::
  "estimator \<Rightarrow> input_fn \<Rightarrow> nat \<Rightarrow> hook list \<Rightarrow> event list \<Rightarrow> event list \<times> (error + unit)" where
  "train est fn steps hooks world =
     (case model_fn est (fst (batch_of fn)) (snd (batch_of fn)) TRAIN [TensorNode GlobalStep] of
        (\<sigma>, Raise e) \<Rightarrow> (world, Inl e)
      | (\<sigma>, Next) \<Rightarrow> (world, Inl (ValueError ''model_fn should return an EstimatorSpec.''))
      | (\<sigma>, Return spec) \<Rightarrow>
          if spec_loss spec = None then (world, Inl (ValueError ''Missing loss.''))
          else if spec_train_op spec = None then (world, Inl (ValueError ''Missing train_op.''))
          else if list_all (\<lambda>h. list_all (\<lambda>(tag, name). has_named name (graph \<sigma>)) (tensors h)) hooks
            then (world @ [Trained fn steps hooks], Inr ())
            else (world, Inl (KeyError ''tensor'')))"

text \<open>
  Modelled from the spec: \<open>Estimator.evaluate\<close> is library code, not under src/; the rule
  here is the library's documented contract.  It calls the model function in eval mode on
  a batch, in a fresh graph that has a global step.  An
  error raised by the model function propagates to the caller.  The result is the dict of
  metrics: the loss, the metrics of the spec and the global step (their keys here).
\<close>

definition evaluate ::
  "estimator \<Rightarrow> input_fn \<Rightarrow> event list \<Rightarrow> event list \<times> (error + string list)" where
  "evaluate est fn world =
     (case model_fn est (fst (batch_of fn)) (snd (batch_of fn)) EVAL [TensorNode GlobalStep] of
        (\<sigma>, Raise e) \<Rightarrow> (world, Inl e)
      | (\<sigma>, Next) \<Rightarrow> (world, Inl (ValueError ''model_fn should return an EstimatorSpec.''))
      | (\<sigma>, Return spec) \<Rightarrow>
          if spec_loss spec = None then (world, Inl (ValueError ''Missing loss.''))
          else (world @ [Evaluated fn],
                Inr (''loss'' # (case spec_eval_metric_ops spec of None \<Rightarrow> [] | Some m \<Rightarrow> map fst m)
                     @ [''global_step''])))"

text \<open>
  Lines 142 to 167.  The dataset that \<open>load_dataset("mnist")\<close> yields is a parameter.  The
  evaluation input function is built, and the evaluation started, only when training has
  come back; \<open>print\<close> runs only when the evaluation has come back.
\<close>

definition main :: "string list \<Rightarrow> dataset \<Rightarrow> event list \<Rightarrow> event list \<times> (error + unit)" where
  "main unused_argv mnist world =
     (let world1 = world @ [Loaded ''mnist''];
          train_data = mnist_train_images mnist;
          train_labels = mnist_train_labels mnist;
          eval_data = mnist_test_images mnist;
          eval_labels = mnist_test_labels mnist;
          mnist_classifier = \<lparr>model_fn = cnn_model_fn, model_dir = ''/tmp/mnist_convnet_model''\<rparr>;
          tensors_to_log = [(''probabilities'', ''softmax_tensor'')];
          logging_hook = \<lparr>tensors = tensors_to_log, every_n_iter = 50\<rparr>;
          train_input_fn =
            tf_estimator_inputs_numpy_input_fn [(''x'', train_data)] (Some train_labels)
              (Some 100) None True
      in case train mnist_classifier train_input_fn 20000 [logging_hook] world1 of
           (world2, Inl e) \<Rightarrow> (world2, Inl e)
         | (world2, Inr u) \<Rightarrow>
             (let eval_input_fn =
                    tf_estimator_inputs_numpy_input_fn [(''x'', eval_data)] (Some eval_labels)
                      None (Some 1) False
              in case evaluate mnist_classifier eval_input_fn world2 of
                   (world3, Inl e) \<Rightarrow> (world3, Inl e)
                 | (world3, Inr eval_results) \<Rightarrow> (world3 @ [Printed eval_results], Inr ())))"

subsection \<open>Values of the output layers\<close>

text \<open>
  Modelled from the spec: \<open>tf.argmax\<close> is library code, not under src/.  Along axis 1 of a
  rank-2 tensor it gives, for each row, the index of the largest entry (the first one when
  several are largest): the spec's "arg-max class index per example".
\<close>

fun argmax_from :: "nat \<Rightarrow> nat \<Rightarrow> real \<Rightarrow> real list \<Rightarrow> nat" where
  "argmax_from i best bv [] = best"
| "argmax_from i best bv (v # vs) =
     (if bv < v then argmax_from (Suc i) i v vs else argmax_from (Suc i) best bv vs)"

definition argmax_row :: "real list \<Rightarrow> nat" where
  "argmax_row r = (case r of [] \<Rightarrow> 0 | v # vs \<Rightarrow> argmax_from 1 0 v vs)"

definition argmax_axis1 :: "real list list \<Rightarrow> nat list" where
  "argmax_axis1 m = map argmax_row m"

text \<open>
  Modelled from the spec: \<open>tf.nn.softmax\<close> is library code, not under src/.  It normalises
  each row: every score is exponentiated and divided by the sum over its row (the spec's
  "softmax-normalized scores").  Floating-point numbers are idealised as reals.
\<close>

definition softmax_row :: "real list \<Rightarrow> real list" where
  "softmax_row r = map (\<lambda>v. exp v / sum_list (map exp r)) r"

definition softmax_rows :: "real list list \<Rightarrow> real list list" where
  "softmax_rows m = map softmax_row m"

text \<open>
  Modelled from the spec: the value of a node when the graph is run, for the two output
  nodes of the notebook; the library that runs the graph is not under src/.  A float tensor
  of rank 2 is a list of rows, an integer tensor of rank 1 a list of indices.  The value of
  a layer with trained weights (and of any node other than the two below) is not computed
  here: the valuation \<open>\<rho>\<close> gives it.  An arg-max node along axis 1 takes the value of its
  operand to the arg-max of every row, and a softmax node takes it to the softmax of every
  row; an arg-max along another axis, or over indices, has no value in this model.
\<close>

datatype tensor_value = Floats "real list list" | Indices "nat list"

fun node_value :: "(tensor \<Rightarrow> real list list) \<Rightarrow> tensor \<Rightarrow> tensor_value option" where
  "node_value \<rho> (ArgMax t axis) =
     (case node_value \<rho> t of
        Some (Floats m) \<Rightarrow> if axis = 1 then Some (Indices (argmax_axis1 m)) else None
      | Some (Indices c) \<Rightarrow> None
      | None \<Rightarrow> None)"
| "node_value \<rho> (Softmax t name) =
     (case node_value \<rho> t of
        Some (Floats m) \<Rightarrow> Some (Floats (softmax_rows m))
      | Some (Indices c) \<Rightarrow> None
      | None \<Rightarrow> None)"
| "node_value \<rho> t = Some (Floats (\<rho> t))"

text \<open>
  Modelled from the spec: \<open>tf.layers.dropout\<close> is library code, not under src/.  The spec
  names it as a pre-built primitive only; the rule here is the library's documented
  contract.  When its training flag is false it returns its input untouched; when the flag
  is true it zeroes the entries that the random mask drops and scales the kept ones by
  \<open>1 / (1 - rate)\<close>.  The mask is a parameter.
\<close>

definition dropout_value :: "real \<Rightarrow> bool \<Rightarrow> bool list list \<Rightarrow> real list list \<Rightarrow> real list list" where
  "dropout_value rate training keep m =
     (if training
      then map (\<lambda>(ks, r). map (\<lambda>(k, v). if k then v / (1 - rate) else 0) (zip ks r)) (zip keep m)
      else m)"

subsection \<open>Vocabulary of the theorems\<close>

fun is_loss_node :: "node \<Rightarrow> bool" where
  "is_loss_node (TensorNode (SoftmaxCrossEntropy onehot lg)) = True"
| "is_loss_node n = False"

fun is_train_op_node :: "node \<Rightarrow> bool" where
  "is_train_op_node (OpNode opn) = True"
| "is_train_op_node n = False"

fun is_metric_node :: "node \<Rightarrow> bool" where
  "is_metric_node (TensorNode (Accuracy lbls preds)) = True"
| "is_metric_node n = False"

text \<open>The standard MNIST arrays: 55000 training and 10000 test images of 784 pixels.\<close>

definition mnist_standard :: dataset where
  "mnist_standard =
     \<lparr>mnist_train_images = [55000, 784], mnist_train_labels = [55000],
      mnist_test_images = [10000, 784], mnist_test_labels = [10000]\<rparr>"

section \<open>Verification\<close>

subsection \<open>Running the statements\<close>

lemma exec_append:
  "exec (xs @ ys) \<sigma> =
     (case exec xs \<sigma> of (\<sigma>', Next) \<Rightarrow> exec ys \<sigma>' | (\<sigma>', Return v) \<Rightarrow> (\<sigma>', Return v)
      | (\<sigma>', Raise e) \<Rightarrow> (\<sigma>', Raise e))"
  by (induction xs arbitrary: \<sigma>) (auto split: prod.splits outcome.splits)

lemma reshape_batch:
  "prod_list s = B * 784 \<Longrightarrow> reshape_shape s [- 1, 28, 28, 1] = Some [B, 28, 28, 1]"
  by (simp add: reshape_shape_def)

lemma reshape_flat:
  "reshape_shape [B, 7, 7, 64] [- 1, 3136] = Some [B, 3136]"
  by (simp add: reshape_shape_def)

lemmas lib_defs = tf_reshape_def tf_layers_conv2d_def tf_layers_max_pooling2d_def
  tf_layers_dense_def tf_layers_dropout_def tf_argmax_def tf_nn_softmax_def tf_cast_def
  tf_one_hot_def tf_losses_softmax_cross_entropy_def tf_train_GradientDescentOptimizer_def
  tf_train_get_global_step_def minimize_def tf_metrics_accuracy_def add_tensor_def

lemmas stmt_defs = at_line_def assign_def return_stmt_def if_stmt_def bind_expr_def var_def
  subscript_def pure_def

lemma modes_distinct: "PREDICT \<noteq> TRAIN" "EVAL \<noteq> TRAIN" "EVAL \<noteq> PREDICT"
  by (simp_all add: PREDICT_def TRAIN_def EVAL_def)

text \<open>The layers on a batch of \<open>B\<close> examples of 784 values each.\<close>

lemma layers_run:
  assumes "features ''x'' = Some x" and "shape_of x = Some s" and "prod_list s = B * 784"
  shows "\<exists>\<sigma>1 d l. exec (layers features mode) (initial_state g) = (\<sigma>1, Next) \<and>
     input_layer \<sigma>1 = Some (Reshape x [- 1, 28, 28, 1]) \<and>
     dense \<sigma>1 = Some d \<and> shape_of d = Some [B, 1024] \<and>
     dropout \<sigma>1 = Some (Dropout d 0.4 (mode = TRAIN)) \<and>
     l = Dense (Dropout d 0.4 (mode = TRAIN)) 10 None \<and>
     logits \<sigma>1 = Some l \<and> shape_of l = Some [B, 10] \<and>
     predictions \<sigma>1 =
       Some [(''classes'', ArgMax l 1), (''probabilities'', Softmax l ''softmax_tensor'')] \<and>
     onehot_labels \<sigma>1 = None \<and> loss \<sigma>1 = None \<and> optimizer \<sigma>1 = None \<and>
     train_op \<sigma>1 = None \<and> eval_metric_ops \<sigma>1 = None \<and>
     visited \<sigma>1 = [61, 65, 70, 74, 76, 81, 82, 83, 87, 91] \<and>
     filter is_loss_node (graph \<sigma>1) = filter is_loss_node g \<and>
     filter is_train_op_node (graph \<sigma>1) = filter is_train_op_node g \<and>
     filter is_metric_node (graph \<sigma>1) = filter is_metric_node g \<and>
     (TensorNode GlobalStep \<in> set (graph \<sigma>1)) = (TensorNode GlobalStep \<in> set g)"
  using assms
  by (simp add: layers_def initial_state_def stmt_defs lib_defs reshape_batch reshape_flat
      dense_shape_def argmax_shape_def)

text \<open>The layers on any input: they bind no later local and never return.\<close>

lemma layers_any:
  "exec (layers features mode) (initial_state g) = (\<sigma>1, out1) \<Longrightarrow>
     train_op \<sigma>1 = None \<and> eval_metric_ops \<sigma>1 = None \<and> loss \<sigma>1 = None \<and>
     filter is_metric_node (graph \<sigma>1) = filter is_metric_node g \<and>
     (\<forall>v. out1 \<noteq> Return v) \<and> 116 \<notin> set (visited \<sigma>1) \<and> 118 \<notin> set (visited \<sigma>1)"
  by (auto simp add: layers_def initial_state_def stmt_defs lib_defs split: option.splits)

lemma heads_predict:
  assumes "predictions \<sigma> = Some p"
  shows "exec (heads labels PREDICT) \<sigma> =
     (\<sigma>\<lparr>visited := visited \<sigma> @ [98, 99]\<rparr>,
      Return (EstimatorSpec PREDICT (Some p) None None None))"
  using assms by (simp add: heads_def stmt_defs)

lemma heads_train:
  assumes "logits \<sigma> = Some l" and "shape_of l = Some [B, 10]" and "shape_of y = Some [B]"
  shows "exec (heads (Some y) TRAIN) \<sigma> =
     (\<sigma>\<lparr>visited := visited \<sigma> @ [98, 103, 105, 110, 111, 112, 113],
        graph := graph \<sigma> @
          [TensorNode (Cast y Int32), TensorNode (OneHot (Cast y Int32) 10),
           TensorNode (SoftmaxCrossEntropy (OneHot (Cast y Int32) 10) l),
           OpNode (Minimize (GradientDescentOptimizer 0.001)
             (SoftmaxCrossEntropy (OneHot (Cast y Int32) 10) l)
             (if TensorNode GlobalStep \<in> set (graph \<sigma>) then Some GlobalStep else None))],
        onehot_labels := Some (OneHot (Cast y Int32) 10),
        loss := Some (SoftmaxCrossEntropy (OneHot (Cast y Int32) 10) l),
        optimizer := Some (GradientDescentOptimizer 0.001),
        train_op := Some (Minimize (GradientDescentOptimizer 0.001)
             (SoftmaxCrossEntropy (OneHot (Cast y Int32) 10) l)
             (if TensorNode GlobalStep \<in> set (graph \<sigma>) then Some GlobalStep else None))\<rparr>,
      Return (EstimatorSpec TRAIN None
        (Some (SoftmaxCrossEntropy (OneHot (Cast y Int32) 10) l))
        (Some (Minimize (GradientDescentOptimizer 0.001)
             (SoftmaxCrossEntropy (OneHot (Cast y Int32) 10) l)
             (if TensorNode GlobalStep \<in> set (graph \<sigma>) then Some GlobalStep else None)))
        None))"
  using assms by (simp add: heads_def stmt_defs lib_defs TRAIN_def PREDICT_def)

lemma heads_other:
  assumes "mode \<noteq> PREDICT" and "mode \<noteq> TRAIN" and "train_op \<sigma> = None"
    and "logits \<sigma> = Some l" and "shape_of l = Some [B, 10]" and "shape_of y = Some [B]"
  shows "exec (heads (Some y) mode) \<sigma> =
     (\<sigma>\<lparr>visited := visited \<sigma> @ [98, 103, 105, 110, 113],
        graph := graph \<sigma> @
          [TensorNode (Cast y Int32), TensorNode (OneHot (Cast y Int32) 10),
           TensorNode (SoftmaxCrossEntropy (OneHot (Cast y Int32) 10) l)],
        onehot_labels := Some (OneHot (Cast y Int32) 10),
        loss := Some (SoftmaxCrossEntropy (OneHot (Cast y Int32) 10) l)\<rparr>,
      Raise (UnboundLocalError ''train_op''))"
  using assms by (simp add: heads_def stmt_defs lib_defs)

lemma heads_raises:
  assumes "mode \<noteq> PREDICT" and "mode \<noteq> TRAIN" and "train_op \<sigma> = None"
  shows "\<exists>\<sigma>' e. exec (heads labels mode) \<sigma> = (\<sigma>', Raise e)"
  using assms
  by (auto simp add: heads_def stmt_defs lib_defs split: option.splits)

text \<open>What the statements after the layers leave alone, whatever the mode and the labels.\<close>

lemma heads_frame:
  "exec (heads labels mode) \<sigma> = (\<sigma>', out) \<Longrightarrow>
     input_layer \<sigma>' = input_layer \<sigma> \<and> dense \<sigma>' = dense \<sigma> \<and> dropout \<sigma>' = dropout \<sigma> \<and>
     logits \<sigma>' = logits \<sigma> \<and> predictions \<sigma>' = predictions \<sigma> \<and>
     eval_metric_ops \<sigma>' = eval_metric_ops \<sigma> \<and>
     filter is_metric_node (graph \<sigma>') = filter is_metric_node (graph \<sigma>) \<and>
     out \<noteq> Next \<and> (\<forall>spec. out = Return spec \<longrightarrow> spec_eval_metric_ops spec = None) \<and>
     (\<exists>ls. visited \<sigma>' = visited \<sigma> @ ls \<and> 116 \<notin> set ls \<and> 118 \<notin> set ls)"
  by (auto simp add: heads_def stmt_defs lib_defs split: option.splits if_splits)

text \<open>The whole function on a batch of \<open>B\<close> examples, in any mode and with any labels.\<close>

lemma model_fn_layers:
  assumes "features ''x'' = Some x" and "shape_of x = Some s" and "prod_list s = B * 784"
  shows "\<exists>d l. input_layer (fst (cnn_model_fn features labels mode g)) =
         Some (Reshape x [- 1, 28, 28, 1]) \<and>
     dense (fst (cnn_model_fn features labels mode g)) = Some d \<and>
     shape_of d = Some [B, 1024] \<and>
     dropout (fst (cnn_model_fn features labels mode g)) = Some (Dropout d 0.4 (mode = TRAIN)) \<and>
     l = Dense (Dropout d 0.4 (mode = TRAIN)) 10 None \<and>
     logits (fst (cnn_model_fn features labels mode g)) = Some l \<and>
     shape_of l = Some [B, 10] \<and>
     predictions (fst (cnn_model_fn features labels mode g)) =
       Some [(''classes'', ArgMax l 1), (''probabilities'', Softmax l ''softmax_tensor'')]"
proof -
  from assms layers_run [of features x s B mode g] obtain \<sigma>1 d l where
    run: "exec (layers features mode) (initial_state g) = (\<sigma>1, Next)" and
    f: "input_layer \<sigma>1 = Some (Reshape x [- 1, 28, 28, 1])" "dense \<sigma>1 = Some d"
      "shape_of d = Some [B, 1024]" "dropout \<sigma>1 = Some (Dropout d 0.4 (mode = TRAIN))"
      "l = Dense (Dropout d 0.4 (mode = TRAIN)) 10 None" "logits \<sigma>1 = Some l"
      "shape_of l = Some [B, 10]"
      "predictions \<sigma>1 =
         Some [(''classes'', ArgMax l 1), (''probabilities'', Softmax l ''softmax_tensor'')]"
    by blast
  have whole: "cnn_model_fn features labels mode g = exec (heads labels mode) \<sigma>1"
    by (simp add: cnn_model_fn_def exec_append run)
  obtain \<sigma>' out where e: "exec (heads labels mode) \<sigma>1 = (\<sigma>', out)"
    by (cases "exec (heads labels mode) \<sigma>1")
  from heads_frame [OF e] f show ?thesis
    by (simp add: whole e)
qed

subsection \<open>Predict mode\<close>

text \<open>
  Claim C1.  On a batch of \<open>B\<close> examples of 784 values each, with any labels (also none),
  a call in predict mode returns at line 99 an EstimatorSpec that holds the predictions
  dict, with the keys "classes" and "probabilities", and nothing else: no loss, no training
  operation, no metrics.  Lines 103 to 113 are not executed, the locals of the loss and of
  the training operation stay unbound, and the graph gains no loss node and no operation.
\<close>

theorem predict_mode_returns_predictions_only:
  assumes "features ''x'' = Some x" and "shape_of x = Some s" and "prod_list s = B * 784"
  shows "\<exists>\<sigma>' p. cnn_model_fn features labels PREDICT g =
       (\<sigma>', Return (EstimatorSpec PREDICT (Some p) None None None)) \<and>
     predictions \<sigma>' = Some p \<and> map fst p = [''classes'', ''probabilities''] \<and>
     onehot_labels \<sigma>' = None \<and> loss \<sigma>' = None \<and>
     optimizer \<sigma>' = None \<and> train_op \<sigma>' = None \<and>
     visited \<sigma>' = [61, 65, 70, 74, 76, 81, 82, 83, 87, 91, 98, 99] \<and>
     filter is_loss_node (graph \<sigma>') = filter is_loss_node g \<and>
     filter is_train_op_node (graph \<sigma>') = filter is_train_op_node g"
proof -
  from assms layers_run [of features x s B PREDICT g] obtain \<sigma>1 l where
    run: "exec (layers features PREDICT) (initial_state g) = (\<sigma>1, Next)" and
    p: "predictions \<sigma>1 =
         Some [(''classes'', ArgMax l 1), (''probabilities'', Softmax l ''softmax_tensor'')]" and
    rest: "onehot_labels \<sigma>1 = None" "loss \<sigma>1 = None" "optimizer \<sigma>1 = None"
      "train_op \<sigma>1 = None" "visited \<sigma>1 = [61, 65, 70, 74, 76, 81, 82, 83, 87, 91]"
      "filter is_loss_node (graph \<sigma>1) = filter is_loss_node g"
      "filter is_train_op_node (graph \<sigma>1) = filter is_train_op_node g"
    by blast
  have "cnn_model_fn features labels PREDICT g = exec (heads labels PREDICT) \<sigma>1"
    by (simp add: cnn_model_fn_def exec_append run)
  with heads_predict [OF p, of labels] p rest show ?thesis
    by simp
qed

theorem predict_mode_returns_predictions_only_witness:
  "\<exists>\<sigma>' p. cnn_model_fn [''x'' \<mapsto> Fed ''x'' [100, 784]] None PREDICT [TensorNode GlobalStep] =
       (\<sigma>', Return (EstimatorSpec PREDICT (Some p) None None None)) \<and>
     predictions \<sigma>' = Some p \<and> map fst p = [''classes'', ''probabilities''] \<and>
     onehot_labels \<sigma>' = None \<and> loss \<sigma>' = None \<and>
     optimizer \<sigma>' = None \<and> train_op \<sigma>' = None \<and>
     visited \<sigma>' = [61, 65, 70, 74, 76, 81, 82, 83, 87, 91, 98, 99] \<and>
     filter is_loss_node (graph \<sigma>') = [] \<and>
     filter is_train_op_node (graph \<sigma>') = []"
  using predict_mode_returns_predictions_only
    [of "[''x'' \<mapsto> Fed ''x'' [100, 784]]" "Fed ''x'' [100, 784]" "[100, 784]" 100 None
      "[TensorNode GlobalStep]"]
  by simp

subsection \<open>Train mode\<close>

text \<open>
  Claim C2.  On a batch of \<open>B\<close> examples with one integer label per example, a call in train
  mode computes the loss as the softmax cross-entropy between the one-hot encoding of depth
  10 of the labels cast to int32 and the logits, builds one minimize operation of a
  gradient-descent optimizer with learning rate 0.001 on that loss, and returns at line 113
  an EstimatorSpec that carries that loss and that operation (and no predictions and no
  metrics).  The graph gains exactly one loss node and exactly one operation.
\<close>

theorem train_mode_returns_loss_and_train_op:
  assumes "features ''x'' = Some x" and "shape_of x = Some s" and "prod_list s = B * 784"
    and "shape_of y = Some [B]"
  shows "\<exists>\<sigma>' l gs ce step.
     ce = SoftmaxCrossEntropy (OneHot (Cast y Int32) 10) l \<and>
     step = Minimize (GradientDescentOptimizer 0.001) ce gs \<and>
     cnn_model_fn features (Some y) TRAIN g =
       (\<sigma>', Return (EstimatorSpec TRAIN None (Some ce) (Some step) None)) \<and>
     logits \<sigma>' = Some l \<and> loss \<sigma>' = Some ce \<and> train_op \<sigma>' = Some step \<and>
     optimizer \<sigma>' = Some (GradientDescentOptimizer 0.001) \<and>
     gs = (if TensorNode GlobalStep \<in> set g then Some GlobalStep else None) \<and>
     visited \<sigma>' =
       [61, 65, 70, 74, 76, 81, 82, 83, 87, 91, 98, 103, 105, 110, 111, 112, 113] \<and>
     filter is_loss_node (graph \<sigma>') = filter is_loss_node g @ [TensorNode ce] \<and>
     filter is_train_op_node (graph \<sigma>') = filter is_train_op_node g @ [OpNode step]"
proof -
  from assms layers_run [of features x s B TRAIN g] obtain \<sigma>1 l where
    run: "exec (layers features TRAIN) (initial_state g) = (\<sigma>1, Next)" and
    l: "logits \<sigma>1 = Some l" "shape_of l = Some [B, 10]" and
    rest: "visited \<sigma>1 = [61, 65, 70, 74, 76, 81, 82, 83, 87, 91]"
      "filter is_loss_node (graph \<sigma>1) = filter is_loss_node g"
      "filter is_train_op_node (graph \<sigma>1) = filter is_train_op_node g"
      "(TensorNode GlobalStep \<in> set (graph \<sigma>1)) = (TensorNode GlobalStep \<in> set g)"
    by blast
  have "cnn_model_fn features (Some y) TRAIN g = exec (heads (Some y) TRAIN) \<sigma>1"
    by (simp add: cnn_model_fn_def exec_append run)
  with heads_train [OF l assms(4)] l rest show ?thesis
    by simp
qed

theorem train_mode_returns_loss_and_train_op_witness:
  "\<exists>\<sigma>' l ce step.
     ce = SoftmaxCrossEntropy (OneHot (Cast (Fed ''labels'' [100]) Int32) 10) l \<and>
     step = Minimize (GradientDescentOptimizer 0.001) ce (Some GlobalStep) \<and>
     cnn_model_fn [''x'' \<mapsto> Fed ''x'' [100, 784]] (Some (Fed ''labels'' [100])) TRAIN
         [TensorNode GlobalStep] =
       (\<sigma>', Return (EstimatorSpec TRAIN None (Some ce) (Some step) None)) \<and>
     logits \<sigma>' = Some l \<and> loss \<sigma>' = Some ce \<and> train_op \<sigma>' = Some step \<and>
     optimizer \<sigma>' = Some (GradientDescentOptimizer 0.001) \<and>
     visited \<sigma>' =
       [61, 65, 70, 74, 76, 81, 82, 83, 87, 91, 98, 103, 105, 110, 111, 112, 113] \<and>
     filter is_loss_node (graph \<sigma>') = [TensorNode ce] \<and>
     filter is_train_op_node (graph \<sigma>') = [OpNode step]"
  using train_mode_returns_loss_and_train_op
    [of "[''x'' \<mapsto> Fed ''x'' [100, 784]]" "Fed ''x'' [100, 784]" "[100, 784]" 100
      "Fed ''labels'' [100]" "[TensorNode GlobalStep]"]
  by simp

subsection \<open>Any other mode\<close>

text \<open>
  Claim C9.  A call whose mode is neither predict nor train (eval mode is one) does not
  return: it ends by raising, whatever the features and the labels.  On a batch of \<open>B\<close>
  examples with one label per example the error is the unbound local \<open>train_op\<close>, raised by
  the return statement of line 113, the last statement executed; \<open>train_op\<close> is unbound in
  the final state, since lines 111 and 112 have not run.
\<close>

theorem other_mode_raises_unbound_train_op:
  assumes "mode \<noteq> PREDICT" and "mode \<noteq> TRAIN"
  shows "(\<exists>\<sigma>' e. cnn_model_fn features labels mode g = (\<sigma>', Raise e)) \<and>
     (features ''x'' = Some x \<and> shape_of x = Some s \<and> prod_list s = B * 784 \<and>
      labels = Some y \<and> shape_of y = Some [B] \<longrightarrow>
      (\<exists>\<sigma>'. cnn_model_fn features labels mode g = (\<sigma>', Raise (UnboundLocalError ''train_op'')) \<and>
         train_op \<sigma>' = None \<and>
         visited \<sigma>' = [61, 65, 70, 74, 76, 81, 82, 83, 87, 91, 98, 103, 105, 110, 113]))"
proof
  obtain \<sigma>1 out1 where run: "exec (layers features mode) (initial_state g) = (\<sigma>1, out1)"
    by (cases "exec (layers features mode) (initial_state g)")
  from layers_any [OF run] have unbound: "train_op \<sigma>1 = None" and noret: "\<forall>v. out1 \<noteq> Return v"
    by simp_all
  show "\<exists>\<sigma>' e. cnn_model_fn features labels mode g = (\<sigma>', Raise e)"
  proof (cases out1)
    case Next
    with run have "cnn_model_fn features labels mode g = exec (heads labels mode) \<sigma>1"
      by (simp add: cnn_model_fn_def exec_append)
    with heads_raises [OF assms unbound, of labels] show ?thesis
      by simp
  next
    case (Return v)
    with noret show ?thesis
      by simp
  next
    case (Raise e)
    with run show ?thesis
      by (simp add: cnn_model_fn_def exec_append)
  qed
next
  show "features ''x'' = Some x \<and> shape_of x = Some s \<and> prod_list s = B * 784 \<and>
      labels = Some y \<and> shape_of y = Some [B] \<longrightarrow>
      (\<exists>\<sigma>'. cnn_model_fn features labels mode g = (\<sigma>', Raise (UnboundLocalError ''train_op'')) \<and>
         train_op \<sigma>' = None \<and>
         visited \<sigma>' = [61, 65, 70, 74, 76, 81, 82, 83, 87, 91, 98, 103, 105, 110, 113])"
  proof
    assume wf: "features ''x'' = Some x \<and> shape_of x = Some s \<and> prod_list s = B * 784 \<and>
      labels = Some y \<and> shape_of y = Some [B]"
    with layers_run [of features x s B mode g] obtain \<sigma>1 l where
      run: "exec (layers features mode) (initial_state g) = (\<sigma>1, Next)" and
      l: "logits \<sigma>1 = Some l" "shape_of l = Some [B, 10]" and
      unbound: "train_op \<sigma>1 = None" and
      v: "visited \<sigma>1 = [61, 65, 70, 74, 76, 81, 82, 83, 87, 91]"
      by blast
    from wf have y: "shape_of y = Some [B]" and lab: "labels = Some y"
      by simp_all
    have "cnn_model_fn features labels mode g = exec (heads (Some y) mode) \<sigma>1"
      by (simp add: cnn_model_fn_def exec_append run lab)
    with heads_other [OF assms unbound l y] unbound v
    show "\<exists>\<sigma>'. cnn_model_fn features labels mode g = (\<sigma>', Raise (UnboundLocalError ''train_op'')) \<and>
         train_op \<sigma>' = None \<and>
         visited \<sigma>' = [61, 65, 70, 74, 76, 81, 82, 83, 87, 91, 98, 103, 105, 110, 113]"
      by simp
  qed
qed

theorem other_mode_raises_unbound_train_op_witness:
  "EVAL \<noteq> PREDICT \<and> EVAL \<noteq> TRAIN \<and>
   (\<exists>\<sigma>'. cnn_model_fn [''x'' \<mapsto> Fed ''x'' [128, 784]] (Some (Fed ''labels'' [128])) EVAL
        [TensorNode GlobalStep] = (\<sigma>', Raise (UnboundLocalError ''train_op'')) \<and>
      train_op \<sigma>' = None \<and>
      visited \<sigma>' = [61, 65, 70, 74, 76, 81, 82, 83, 87, 91, 98, 103, 105, 110, 113])"
  using other_mode_raises_unbound_train_op
    [of EVAL "[''x'' \<mapsto> Fed ''x'' [128, 784]]" "Some (Fed ''labels'' [128])"
      "[TensorNode GlobalStep]" "Fed ''x'' [128, 784]" "[128, 784]" 128 "Fed ''labels'' [128]"]
  by (simp add: modes_distinct)

subsection \<open>The code after line 113\<close>

text \<open>
  Claim C4.  For every features dict, labels, mode and graph, the statements at lines 116
  and 118 (the metrics dict and the return after it) are never executed: the local
  \<open>eval_metric_ops\<close> is unbound in the final state, the graph gains no accuracy node, a spec
  that is returned holds no metrics, and the call never runs past line 113 (it ends by a
  return or by raising).  On a batch of \<open>B\<close> examples with one label per example, a call
  in any mode but predict leaves the function at the return statement of line 113, whose
  line is the last one executed.
\<close>

theorem metrics_code_never_reached:
  "116 \<notin> set (visited (fst (cnn_model_fn features labels mode g))) \<and>
   118 \<notin> set (visited (fst (cnn_model_fn features labels mode g))) \<and>
   eval_metric_ops (fst (cnn_model_fn features labels mode g)) = None \<and>
   filter is_metric_node (graph (fst (cnn_model_fn features labels mode g))) =
     filter is_metric_node g \<and>
   snd (cnn_model_fn features labels mode g) \<noteq> Next \<and>
   (\<forall>spec. snd (cnn_model_fn features labels mode g) = Return spec \<longrightarrow>
      spec_eval_metric_ops spec = None) \<and>
   (features ''x'' = Some x \<and> shape_of x = Some s \<and> prod_list s = B * 784 \<and>
    labels = Some y \<and> shape_of y = Some [B] \<and> mode \<noteq> PREDICT \<longrightarrow>
    last (visited (fst (cnn_model_fn features labels mode g))) = 113)"
proof -
  obtain \<sigma>1 out1 where run: "exec (layers features mode) (initial_state g) = (\<sigma>1, out1)"
    by (cases "exec (layers features mode) (initial_state g)")
  note any = layers_any [OF run]
  have general:
    "116 \<notin> set (visited (fst (cnn_model_fn features labels mode g))) \<and>
     118 \<notin> set (visited (fst (cnn_model_fn features labels mode g))) \<and>
     eval_metric_ops (fst (cnn_model_fn features labels mode g)) = None \<and>
     filter is_metric_node (graph (fst (cnn_model_fn features labels mode g))) =
       filter is_metric_node g \<and>
     snd (cnn_model_fn features labels mode g) \<noteq> Next \<and>
     (\<forall>spec. snd (cnn_model_fn features labels mode g) = Return spec \<longrightarrow>
        spec_eval_metric_ops spec = None)"
  proof (cases out1)
    case Next
    with run have whole: "cnn_model_fn features labels mode g = exec (heads labels mode) \<sigma>1"
      by (simp add: cnn_model_fn_def exec_append)
    obtain \<sigma>' out where e: "exec (heads labels mode) \<sigma>1 = (\<sigma>', out)"
      by (cases "exec (heads labels mode) \<sigma>1")
    from heads_frame [OF e] any show ?thesis
      by (auto simp add: whole e)
  next
    case (Return v)
    with any show ?thesis
      by simp
  next
    case (Raise e)
    with run have "cnn_model_fn features labels mode g = (\<sigma>1, Raise e)"
      by (simp add: cnn_model_fn_def exec_append)
    with any show ?thesis
      by simp
  qed
  have exit_113:
    "last (visited (fst (cnn_model_fn features labels mode g))) = 113"
    if wf: "features ''x'' = Some x \<and> shape_of x = Some s \<and> prod_list s = B * 784 \<and>
      labels = Some y \<and> shape_of y = Some [B] \<and> mode \<noteq> PREDICT"
  proof -
    from wf layers_run [of features x s B mode g] obtain \<sigma>2 l where
      run2: "exec (layers features mode) (initial_state g) = (\<sigma>2, Next)" and
      l: "logits \<sigma>2 = Some l" "shape_of l = Some [B, 10]" and
      unbound: "train_op \<sigma>2 = None"
      by blast
    from wf have y: "shape_of y = Some [B]" and lab: "labels = Some y" and np: "mode \<noteq> PREDICT"
      by simp_all
    have whole: "cnn_model_fn features labels mode g = exec (heads (Some y) mode) \<sigma>2"
      by (simp add: cnn_model_fn_def exec_append run2 lab)
    show ?thesis
    proof (cases "mode = TRAIN")
      case True
      with heads_train [OF l y] whole show ?thesis
        by simp
    next
      case False
      with heads_other [OF np False unbound l y] whole show ?thesis
        by simp
    qed
  qed
  from general exit_113 show ?thesis
    by blast
qed

theorem metrics_code_never_reached_witness:
  "116 \<notin> set (visited (fst (cnn_model_fn [''x'' \<mapsto> Fed ''x'' [128, 784]]
      (Some (Fed ''labels'' [128])) EVAL [TensorNode GlobalStep]))) \<and>
   118 \<notin> set (visited (fst (cnn_model_fn [''x'' \<mapsto> Fed ''x'' [128, 784]]
      (Some (Fed ''labels'' [128])) EVAL [TensorNode GlobalStep]))) \<and>
   eval_metric_ops (fst (cnn_model_fn [''x'' \<mapsto> Fed ''x'' [128, 784]]
      (Some (Fed ''labels'' [128])) EVAL [TensorNode GlobalStep])) = None \<and>
   snd (cnn_model_fn [''x'' \<mapsto> Fed ''x'' [128, 784]]
      (Some (Fed ''labels'' [128])) EVAL [TensorNode GlobalStep]) \<noteq> Next \<and>
   last (visited (fst (cnn_model_fn [''x'' \<mapsto> Fed ''x'' [128, 784]]
      (Some (Fed ''labels'' [128])) EVAL [TensorNode GlobalStep]))) = 113"
  using metrics_code_never_reached
    [of "[''x'' \<mapsto> Fed ''x'' [128, 784]]" "Some (Fed ''labels'' [128])" EVAL
      "[TensorNode GlobalStep]" "Fed ''x'' [128, 784]" "[128, 784]" 128 "Fed ''labels'' [128]"]
  by (simp add: modes_distinct)

subsection \<open>Shapes\<close>

text \<open>
  Claim C5.  For any batch size \<open>B\<close>: when the tensor \<open>features["x"]\<close> holds \<open>B * 784\<close>
  values (784 per example, whatever its own shape), the first statement binds
  \<open>input_layer\<close> to the reshape of that tensor to \<open>[-1, 28, 28, 1]\<close>, and the shape of the
  result is \<open>[B, 28, 28, 1]\<close>.  This holds in every mode and with any labels.
\<close>

theorem input_layer_shape:
  assumes "features ''x'' = Some x" and "shape_of x = Some s" and "prod_list s = B * 784"
  shows "\<exists>t. input_layer (fst (cnn_model_fn features labels mode g)) = Some t \<and>
     t = Reshape x [- 1, 28, 28, 1] \<and> shape_of t = Some [B, 28, 28, 1]"
proof -
  from assms model_fn_layers [of features x s B labels mode g]
  have "input_layer (fst (cnn_model_fn features labels mode g)) =
      Some (Reshape x [- 1, 28, 28, 1])"
    by blast
  moreover from assms have "shape_of (Reshape x [- 1, 28, 28, 1]) = Some [B, 28, 28, 1]"
    by (simp add: reshape_batch)
  ultimately show ?thesis
    by simp
qed

theorem input_layer_shape_witness:
  "\<exists>t. input_layer (fst (cnn_model_fn [''x'' \<mapsto> Fed ''x'' [100, 784]]
       (Some (Fed ''labels'' [100])) TRAIN [TensorNode GlobalStep])) = Some t \<and>
     t = Reshape (Fed ''x'' [100, 784]) [- 1, 28, 28, 1] \<and> shape_of t = Some [100, 28, 28, 1]"
  using input_layer_shape
    [of "[''x'' \<mapsto> Fed ''x'' [100, 784]]" "Fed ''x'' [100, 784]" "[100, 784]" 100
      "Some (Fed ''labels'' [100])" TRAIN "[TensorNode GlobalStep]"]
  by simp

text \<open>
  Claim C6.  For any batch size \<open>B\<close>: on a batch of \<open>B\<close> examples of 784 values each, the
  local \<open>logits\<close> is bound to a dense layer of 10 units with no activation, and its shape
  is \<open>[B, 10]\<close>, of rank 2.  This holds in every mode and with any labels.
\<close>

theorem logits_shape:
  assumes "features ''x'' = Some x" and "shape_of x = Some s" and "prod_list s = B * 784"
  shows "\<exists>inp l. logits (fst (cnn_model_fn features labels mode g)) = Some l \<and>
     l = Dense inp 10 None \<and> shape_of l = Some [B, 10] \<and>
     map_option length (shape_of l) = Some 2"
  using assms model_fn_layers [of features x s B labels mode g]
  by auto

theorem logits_shape_witness:
  "\<exists>inp l. logits (fst (cnn_model_fn [''x'' \<mapsto> Fed ''x'' [100, 784]]
       (Some (Fed ''labels'' [100])) TRAIN [TensorNode GlobalStep])) = Some l \<and>
     l = Dense inp 10 None \<and> shape_of l = Some [100, 10] \<and>
     map_option length (shape_of l) = Some 2"
  using logits_shape
    [of "[''x'' \<mapsto> Fed ''x'' [100, 784]]" "Fed ''x'' [100, 784]" "[100, 784]" 100
      "Some (Fed ''labels'' [100])" TRAIN "[TensorNode GlobalStep]"]
  by simp

subsection \<open>Values of the predictions\<close>

lemma argmax_from_max:
  "length ys = i \<Longrightarrow> best < i \<Longrightarrow> ys ! best = bv \<Longrightarrow> \<forall>v\<in>set ys. v \<le> bv \<Longrightarrow>
     argmax_from i best bv vs < i + length vs \<and>
     (\<forall>v\<in>set (ys @ vs). v \<le> (ys @ vs) ! argmax_from i best bv vs)"
proof (induction vs arbitrary: ys i best bv)
  case Nil
  then show ?case
    by simp
next
  case (Cons v vs)
  show ?case
  proof (cases "bv < v")
    case True
    have "argmax_from (Suc i) i v vs < Suc i + length vs \<and>
        (\<forall>u\<in>set ((ys @ [v]) @ vs). u \<le> ((ys @ [v]) @ vs) ! argmax_from (Suc i) i v vs)"
    proof (rule Cons.IH)
      show "length (ys @ [v]) = Suc i"
        using Cons.prems by simp
      show "i < Suc i"
        by simp
      show "(ys @ [v]) ! i = v"
        using Cons.prems by (simp add: nth_append)
      show "\<forall>u\<in>set (ys @ [v]). u \<le> v"
        using Cons.prems True by fastforce
    qed
    with True show ?thesis
      by simp
  next
    case False
    have "argmax_from (Suc i) best bv vs < Suc i + length vs \<and>
        (\<forall>u\<in>set ((ys @ [v]) @ vs). u \<le> ((ys @ [v]) @ vs) ! argmax_from (Suc i) best bv vs)"
    proof (rule Cons.IH)
      show "length (ys @ [v]) = Suc i"
        using Cons.prems by simp
      show "best < Suc i"
        using Cons.prems by simp
      show "(ys @ [v]) ! best = bv"
        using Cons.prems by (simp add: nth_append)
      show "\<forall>u\<in>set (ys @ [v]). u \<le> bv"
        using Cons.prems False by auto
    qed
    with False show ?thesis
      by simp
  qed
qed

lemma argmax_row_max:
  assumes "r \<noteq> []"
  shows "argmax_row r < length r \<and> (\<forall>v\<in>set r. v \<le> r ! argmax_row r)"
proof -
  from assms obtain v vs where r: "r = v # vs"
    by (cases r) auto
  from argmax_from_max [of "[v]" 1 0 v vs] show ?thesis
    by (simp add: r argmax_row_def)
qed

lemma sum_list_exp_pos:
  fixes r :: "real list"
  shows "r \<noteq> [] \<Longrightarrow> 0 < sum_list (map exp r)"
proof (induction r)
  case Nil
  then show ?case
    by simp
next
  case (Cons v vs)
  have "0 \<le> sum_list (map exp vs)"
    by (rule sum_list_nonneg) auto
  moreover have "0 < exp v"
    by simp
  ultimately have "0 < exp v + sum_list (map exp vs)"
    by (rule add_pos_nonneg [rotated])
  then show ?case
    by simp
qed

lemma sum_list_divide:
  fixes c :: real
  shows "sum_list (map (\<lambda>v. f v / c) xs) = sum_list (map f xs) / c"
  by (induction xs) (simp_all add: add_divide_distrib)

lemma softmax_row_sum:
  assumes "r \<noteq> []"
  shows "sum_list (softmax_row r) = 1"
  using sum_list_exp_pos [OF assms]
  by (simp add: softmax_row_def sum_list_divide)

lemma softmax_row_nth:
  assumes "j < length r"
  shows "softmax_row r ! j = exp (r ! j) / (\<Sum>k<length r. exp (r ! k))"
proof -
  have "sum_list (map exp r) = (\<Sum>k = 0..<length (map exp r). map exp r ! k)"
    by (rule sum_list_sum_nth)
  also have "\<dots> = (\<Sum>k<length r. exp (r ! k))"
    by (simp add: atLeast0LessThan)
  finally show ?thesis
    using assms by (simp add: softmax_row_def)
qed

text \<open>
  Claim C7.  On a batch of \<open>B\<close> examples, in every mode, the local \<open>predictions\<close> is bound
  to a dict with two entries: "classes" is the arg-max node along axis 1 of the logits, of
  shape \<open>[B]\<close>, and "probabilities" is the softmax node of the logits (named
  "softmax\_tensor"), of shape \<open>[B, 10]\<close>.  Whatever value the logits take when the graph
  is run (\<open>B\<close> rows of 10 scores), the value of the "classes" entry is a list of \<open>B\<close>
  indices, each below 10 and each an index at which its row of logits is largest; the
  value of the "probabilities" entry is \<open>B\<close> rows of 10 numbers, each the exponential of
  the score divided by the sum of the exponentials over its row, and each row sums to 1
  (exactly: the scores are reals here, so no rounding is modelled).
\<close>

theorem predictions_classes_and_probabilities:
  assumes "features ''x'' = Some x" and "shape_of x = Some s" and "prod_list s = B * 784"
  shows "\<exists>l cls prb. logits (fst (cnn_model_fn features labels mode g)) = Some l \<and>
     predictions (fst (cnn_model_fn features labels mode g)) =
       Some [(''classes'', cls), (''probabilities'', prb)] \<and>
     cls = ArgMax l 1 \<and> prb = Softmax l ''softmax_tensor'' \<and>
     shape_of l = Some [B, 10] \<and> shape_of cls = Some [B] \<and> shape_of prb = Some [B, 10] \<and>
     (\<forall>\<rho>. length (\<rho> l) = B \<and> (\<forall>r\<in>set (\<rho> l). length r = 10) \<longrightarrow>
        (\<exists>C P. node_value \<rho> cls = Some (Indices C) \<and>
           node_value \<rho> prb = Some (Floats P) \<and>
           length C = B \<and> length P = B \<and>
           (\<forall>i<B. C ! i < 10 \<and>
              (\<forall>j<10. \<rho> l ! i ! j \<le> \<rho> l ! i ! (C ! i)) \<and>
              length (P ! i) = 10 \<and>
              (\<forall>j<10. P ! i ! j = exp (\<rho> l ! i ! j) / (\<Sum>k<10. exp (\<rho> l ! i ! k))) \<and>
              sum_list (P ! i) = 1)))"
proof -
  from assms model_fn_layers [of features x s B labels mode g] obtain d l where
    l: "logits (fst (cnn_model_fn features labels mode g)) = Some l"
      "shape_of l = Some [B, 10]"
      "predictions (fst (cnn_model_fn features labels mode g)) =
         Some [(''classes'', ArgMax l 1), (''probabilities'', Softmax l ''softmax_tensor'')]" and
    dense: "l = Dense (Dropout d 0.4 (mode = TRAIN)) 10 None"
    by blast
  have shapes: "shape_of (ArgMax l 1) = Some [B]"
    "shape_of (Softmax l ''softmax_tensor'') = Some [B, 10]"
    using l(2) by (simp_all add: argmax_shape_def)
  have vals: "\<exists>C P. node_value \<rho> (ArgMax l 1) = Some (Indices C) \<and>
           node_value \<rho> (Softmax l ''softmax_tensor'') = Some (Floats P) \<and>
           length C = B \<and> length P = B \<and>
           (\<forall>i<B. C ! i < 10 \<and>
              (\<forall>j<10. \<rho> l ! i ! j \<le> \<rho> l ! i ! (C ! i)) \<and>
              length (P ! i) = 10 \<and>
              (\<forall>j<10. P ! i ! j = exp (\<rho> l ! i ! j) / (\<Sum>k<10. exp (\<rho> l ! i ! k))) \<and>
              sum_list (P ! i) = 1)"
    if m: "length (\<rho> l) = B \<and> (\<forall>r\<in>set (\<rho> l). length r = 10)" for \<rho>
  proof -
    have cv: "node_value \<rho> (ArgMax l 1) = Some (Indices (argmax_axis1 (\<rho> l)))"
      by (simp add: dense)
    have pv: "node_value \<rho> (Softmax l ''softmax_tensor'') = Some (Floats (softmax_rows (\<rho> l)))"
      by (simp add: dense)
    have row: "argmax_axis1 (\<rho> l) ! i < 10 \<and>
        (\<forall>j<10. \<rho> l ! i ! j \<le> \<rho> l ! i ! (argmax_axis1 (\<rho> l) ! i)) \<and>
        length (softmax_rows (\<rho> l) ! i) = 10 \<and>
        (\<forall>j<10. softmax_rows (\<rho> l) ! i ! j =
           exp (\<rho> l ! i ! j) / (\<Sum>k<10. exp (\<rho> l ! i ! k))) \<and>
        sum_list (softmax_rows (\<rho> l) ! i) = 1"
      if i: "i < B" for i
    proof -
      from i m have len: "length (\<rho> l ! i) = 10"
        by simp
      then have ne: "\<rho> l ! i \<noteq> []"
        by auto
      have a: "argmax_axis1 (\<rho> l) ! i = argmax_row (\<rho> l ! i)"
        using i m by (simp add: argmax_axis1_def)
      have p: "softmax_rows (\<rho> l) ! i = softmax_row (\<rho> l ! i)"
        using i m by (simp add: softmax_rows_def)
      from argmax_row_max [OF ne] len
      have "argmax_row (\<rho> l ! i) < 10"
        and mx: "\<forall>v\<in>set (\<rho> l ! i). v \<le> \<rho> l ! i ! argmax_row (\<rho> l ! i)"
        by simp_all
      moreover have "\<forall>j<10. \<rho> l ! i ! j \<le> \<rho> l ! i ! argmax_row (\<rho> l ! i)"
        using mx len by simp
      moreover have "length (softmax_row (\<rho> l ! i)) = 10"
        using len by (simp add: softmax_row_def)
      moreover have "\<forall>j<10. softmax_row (\<rho> l ! i) ! j =
           exp (\<rho> l ! i ! j) / (\<Sum>k<10. exp (\<rho> l ! i ! k))"
        using softmax_row_nth [of _ "\<rho> l ! i"] len by simp
      moreover have "sum_list (softmax_row (\<rho> l ! i)) = 1"
        by (rule softmax_row_sum [OF ne])
      ultimately show ?thesis
        by (simp add: a p)
    qed
    have "length (argmax_axis1 (\<rho> l)) = B" "length (softmax_rows (\<rho> l)) = B"
      using m by (simp_all add: argmax_axis1_def softmax_rows_def)
    with cv pv row show ?thesis
      by blast
  qed
  from l shapes vals show ?thesis
    by blast
qed

theorem predictions_classes_and_probabilities_witness:
  "\<exists>l cls prb C P.
     logits (fst (cnn_model_fn [''x'' \<mapsto> Fed ''x'' [1, 784]] None PREDICT [])) = Some l \<and>
     predictions (fst (cnn_model_fn [''x'' \<mapsto> Fed ''x'' [1, 784]] None PREDICT [])) =
       Some [(''classes'', cls), (''probabilities'', prb)] \<and>
     cls = ArgMax l 1 \<and> prb = Softmax l ''softmax_tensor'' \<and>
     shape_of cls = Some [1] \<and> shape_of prb = Some [1, 10] \<and>
     node_value (\<lambda>t. [[0, 0, 0, 5, 0, 0, 0, 0, 2, 0]]) cls = Some (Indices C) \<and>
     node_value (\<lambda>t. [[0, 0, 0, 5, 0, 0, 0, 0, 2, 0]]) prb = Some (Floats P) \<and>
     C ! 0 < 10 \<and>
     P ! 0 ! 3 = exp 5 / (\<Sum>k<10. exp ([0, 0, 0, 5, 0, 0, 0, 0, 2, 0] ! k)) \<and>
     sum_list (P ! 0) = 1"
proof -
  let ?m = "[[0, 0, 0, 5, 0, 0, 0, 0, 2, 0]] :: real list list"
  let ?\<rho> = "\<lambda>t :: tensor. ?m"
  have f: "[''x'' \<mapsto> Fed ''x'' [1, 784]] ''x'' = Some (Fed ''x'' [1, 784])"
    by simp
  have sh: "shape_of (Fed ''x'' [1, 784]) = Some [1, 784]"
    by simp
  have pr: "prod_list [1, 784] = (1::nat) * 784"
    by simp
  from f sh pr predictions_classes_and_probabilities
    [of "[''x'' \<mapsto> Fed ''x'' [1, 784]]" "Fed ''x'' [1, 784]" "[1, 784]" 1 None PREDICT "[]"]
  obtain l cls prb where
    l: "logits (fst (cnn_model_fn [''x'' \<mapsto> Fed ''x'' [1, 784]] None PREDICT [])) = Some l"
      "predictions (fst (cnn_model_fn [''x'' \<mapsto> Fed ''x'' [1, 784]] None PREDICT [])) =
         Some [(''classes'', cls), (''probabilities'', prb)]"
      "cls = ArgMax l 1" "prb = Softmax l ''softmax_tensor''"
      "shape_of cls = Some [1]" "shape_of prb = Some [1, 10]" and
    vals: "\<forall>\<rho>. length (\<rho> l) = 1 \<and> (\<forall>r\<in>set (\<rho> l). length r = 10) \<longrightarrow>
        (\<exists>C P. node_value \<rho> cls = Some (Indices C) \<and>
           node_value \<rho> prb = Some (Floats P) \<and>
           length C = 1 \<and> length P = 1 \<and>
           (\<forall>i<1. C ! i < 10 \<and>
              (\<forall>j<10. \<rho> l ! i ! j \<le> \<rho> l ! i ! (C ! i)) \<and>
              length (P ! i) = 10 \<and>
              (\<forall>j<10. P ! i ! j = exp (\<rho> l ! i ! j) / (\<Sum>k<10. exp (\<rho> l ! i ! k))) \<and>
              sum_list (P ! i) = 1))"
    by blast
  have pre: "length (?\<rho> l) = 1 \<and> (\<forall>r\<in>set (?\<rho> l). length r = 10)"
    by simp
  from vals [rule_format, of ?\<rho>, OF pre] obtain C P where
    cp: "node_value ?\<rho> cls = Some (Indices C)" "node_value ?\<rho> prb = Some (Floats P)" and
    rows: "\<forall>i<1. C ! i < 10 \<and>
              (\<forall>j<10. ?\<rho> l ! i ! j \<le> ?\<rho> l ! i ! (C ! i)) \<and>
              length (P ! i) = 10 \<and>
              (\<forall>j<10. P ! i ! j = exp (?\<rho> l ! i ! j) / (\<Sum>k<10. exp (?\<rho> l ! i ! k))) \<and>
              sum_list (P ! i) = 1"
    by blast
  from rows [rule_format, of 0] have c: "C ! 0 < 10" and s: "sum_list (P ! 0) = 1" and
    e: "\<forall>j<10. P ! 0 ! j =
       exp ([0, 0, 0, 5, 0, 0, 0, 0, 2, 0] ! j) / (\<Sum>k<10. exp ([0, 0, 0, 5, 0, 0, 0, 0, 2, 0] ! k))"
    by simp_all
  from e [rule_format, of 3]
  have "P ! 0 ! 3 = exp 5 / (\<Sum>k<10. exp ([0, 0, 0, 5, 0, 0, 0, 0, 2, 0] ! k))"
    by simp
  with l cp c s show ?thesis
    by blast
qed

subsection \<open>Dropout\<close>

text \<open>
  Claim C10.  On a batch of \<open>B\<close> examples, with any labels, the dropout layer is built over
  the dense layer with rate 0.4 and with a training flag that is true exactly when the
  mode is train, and the logits layer reads the dropout layer.  In predict mode, in eval
  mode and in any other mode but train the flag is false, and the dropout layer then
  yields the value of the dense layer unchanged, whatever the random mask.
\<close>

theorem dropout_active_only_in_train_mode:
  assumes "features ''x'' = Some x" and "shape_of x = Some s" and "prod_list s = B * 784"
  shows "\<exists>d. dense (fst (cnn_model_fn features labels mode g)) = Some d \<and>
     dropout (fst (cnn_model_fn features labels mode g)) =
       Some (Dropout d 0.4 (mode = TRAIN)) \<and>
     logits (fst (cnn_model_fn features labels mode g)) =
       Some (Dense (Dropout d 0.4 (mode = TRAIN)) 10 None) \<and>
     (mode = PREDICT \<or> mode = EVAL \<longrightarrow> mode \<noteq> TRAIN) \<and>
     (mode \<noteq> TRAIN \<longrightarrow> (\<forall>keep m. dropout_value 0.4 (mode = TRAIN) keep m = m))"
proof -
  from assms model_fn_layers [of features x s B labels mode g] obtain d where
    "dense (fst (cnn_model_fn features labels mode g)) = Some d"
    "dropout (fst (cnn_model_fn features labels mode g)) = Some (Dropout d 0.4 (mode = TRAIN))"
    "logits (fst (cnn_model_fn features labels mode g)) =
       Some (Dense (Dropout d 0.4 (mode = TRAIN)) 10 None)"
    by blast
  moreover have "mode = PREDICT \<or> mode = EVAL \<longrightarrow> mode \<noteq> TRAIN"
    using modes_distinct by auto
  moreover have "mode \<noteq> TRAIN \<longrightarrow> (\<forall>keep m. dropout_value 0.4 (mode = TRAIN) keep m = m)"
    by (simp add: dropout_value_def)
  ultimately show ?thesis
    by blast
qed

theorem dropout_active_only_in_train_mode_witness:
  "\<exists>d. dense (fst (cnn_model_fn [''x'' \<mapsto> Fed ''x'' [128, 784]]
       (Some (Fed ''labels'' [128])) EVAL [TensorNode GlobalStep])) = Some d \<and>
     dropout (fst (cnn_model_fn [''x'' \<mapsto> Fed ''x'' [128, 784]]
       (Some (Fed ''labels'' [128])) EVAL [TensorNode GlobalStep])) = Some (Dropout d 0.4 False) \<and>
     logits (fst (cnn_model_fn [''x'' \<mapsto> Fed ''x'' [128, 784]]
       (Some (Fed ''labels'' [128])) EVAL [TensorNode GlobalStep])) =
       Some (Dense (Dropout d 0.4 False) 10 None) \<and>
     dropout_value 0.4 False [[True, False]] [[1, 2]] = [[1, 2]]"
proof -
  from dropout_active_only_in_train_mode
    [of "[''x'' \<mapsto> Fed ''x'' [128, 784]]" "Fed ''x'' [128, 784]" "[128, 784]" 128
      "Some (Fed ''labels'' [128])" EVAL "[TensorNode GlobalStep]"]
  obtain d where
    d: "dense (fst (cnn_model_fn [''x'' \<mapsto> Fed ''x'' [128, 784]]
         (Some (Fed ''labels'' [128])) EVAL [TensorNode GlobalStep])) = Some d"
      "dropout (fst (cnn_model_fn [''x'' \<mapsto> Fed ''x'' [128, 784]]
         (Some (Fed ''labels'' [128])) EVAL [TensorNode GlobalStep])) = Some (Dropout d 0.4 False)"
      "logits (fst (cnn_model_fn [''x'' \<mapsto> Fed ''x'' [128, 784]]
         (Some (Fed ''labels'' [128])) EVAL [TensorNode GlobalStep])) =
         Some (Dense (Dropout d 0.4 False) 10 None)" and
    v: "\<forall>keep m. dropout_value 0.4 (EVAL = TRAIN) keep m = m"
    by (auto simp add: modes_distinct)
  from v [rule_format, of "[[True, False]]" "[[1, 2]]"]
  have "dropout_value 0.4 False [[True, False]] [[1, 2]] = [[1, 2]]"
    by (simp add: modes_distinct)
  with d show ?thesis
    by blast
qed

subsection \<open>Eval mode and the driver, at concrete inputs\<close>

lemmas shape_defs = reshape_shape_def dense_shape_def argmax_shape_def

lemmas body_defs = cnn_model_fn_def layers_def heads_def initial_state_def

text \<open>
  Claim C3.  The claim asks that a call in eval mode return an EstimatorSpec with the loss
  and an accuracy metric.  The code does not: on the batch that the evaluation pass feeds
  (128 examples with their labels) the call raises the unbound local \<open>train_op\<close> at
  line 113, the local \<open>eval_metric_ops\<close> stays unbound and the graph holds no accuracy
  node.
\<close>

theorem eval_mode_call_fails:
  "snd (cnn_model_fn [''x'' \<mapsto> Fed ''x'' [128, 784]] (Some (Fed ''labels'' [128])) EVAL
       [TensorNode GlobalStep]) = Raise (UnboundLocalError ''train_op'') \<and>
   eval_metric_ops (fst (cnn_model_fn [''x'' \<mapsto> Fed ''x'' [128, 784]]
       (Some (Fed ''labels'' [128])) EVAL [TensorNode GlobalStep])) = None \<and>
   filter is_metric_node (graph (fst (cnn_model_fn [''x'' \<mapsto> Fed ''x'' [128, 784]]
       (Some (Fed ''labels'' [128])) EVAL [TensorNode GlobalStep]))) = []"
  by (simp add: body_defs stmt_defs lib_defs shape_defs EVAL_def PREDICT_def TRAIN_def)

text \<open>
  Claim C8.  The driver on the standard MNIST arrays: it loads the dataset and completes
  the training run (input function with batch size 100, no epoch limit, shuffling; 20000
  steps; one logging hook on "softmax\_tensor" every 50 iterations).  The evaluation that
  it starts next (one epoch, no shuffling) calls the model function in eval mode, which
  raises the unbound local \<open>train_op\<close>; the error ends the driver, so that no evaluation
  completes and nothing is printed.
\<close>

theorem main_fails_in_evaluation:
  "main argv mnist_standard [] =
     ([Loaded ''mnist'',
       Trained \<lparr>fn_x = [(''x'', [55000, 784])], fn_y = Some [55000], fn_batch_size = 100,
                fn_num_epochs = None, fn_shuffle = True\<rparr>
         20000 [\<lparr>tensors = [(''probabilities'', ''softmax_tensor'')], every_n_iter = 50\<rparr>]],
      Inl (UnboundLocalError ''train_op''))"
  by (simp add: main_def train_def evaluate_def batch_of_def has_named_def mnist_standard_def
      tf_estimator_inputs_numpy_input_fn_def
      body_defs stmt_defs lib_defs shape_defs EVAL_def PREDICT_def TRAIN_def)

end
